theory Spec2Isabelle
  imports Main
begin

section \<open>Python values\<close>

text \<open>
  The client is dynamically typed: the arguments that it places into a query or body
  mapping, the parsed JSON it returns and the detail it puts into an error are arbitrary
  Python values. \<open>PNone\<close> is Python's \<open>None\<close> (and JSON's \<open>null\<close> once
  parsed). A dict is an association list in insertion order with string keys, as every
  dict of the client (a keyword mapping or a parsed JSON object) has.
\<close>

datatype py_float =
    FloatVal bool nat int   \<comment> \<open>sign, mantissa, binary exponent\<close>
  | FloatInf bool
  | FloatNaN

datatype py_value =
    PNone
  | PBool bool
  | PInt int
  | PFloat py_float
  | PStr string
  | PList "py_value list"
  | PDict "(string \<times> py_value) list"
  | PObject   \<comment> \<open>any other object; the client instance bound to \<open>self\<close>\<close>

text \<open>Truth value testing, as \<open>if x\<close> and \<open>not x\<close> do it.\<close>

fun truthy :: "py_value \<Rightarrow> bool" where
  "truthy PNone = False"
| "truthy (PBool b) = b"
| "truthy (PInt i) = (i \<noteq> 0)"
| "truthy (PFloat (FloatVal s m e)) = (m \<noteq> 0)"
| "truthy (PFloat (FloatInf s)) = True"
| "truthy (PFloat FloatNaN) = True"
| "truthy (PStr s) = (s \<noteq> [])"
| "truthy (PList xs) = (xs \<noteq> [])"
| "truthy (PDict d) = (d \<noteq> [])"
| "truthy PObject = True"

text \<open>\<open>type(x).__name__\<close>, which the interpreter puts into its error messages.\<close>

fun type_name :: "py_value \<Rightarrow> string" where
  "type_name PNone = ''NoneType''"
| "type_name (PBool b) = ''bool''"
| "type_name (PInt i) = ''int''"
| "type_name (PFloat f) = ''float''"
| "type_name (PStr s) = ''str''"
| "type_name (PList xs) = ''list''"
| "type_name (PDict d) = ''dict''"
| "type_name PObject = ''object''"

text \<open>A name between apostrophes, as the interpreter's messages quote it.\<close>

definition quoted :: "string \<Rightarrow> string" where
  "quoted s = CHR 0x27 # s @ [CHR 0x27]"

text \<open>\<open>str(n)\<close> of an integer, as an f-string formats a path parameter.\<close>

fun str_nat :: "nat \<Rightarrow> string" where
  "str_nat n =
     (if n < 10 then [''0123456789'' ! n]
      else str_nat (n div 10) @ [''0123456789'' ! (n mod 10)])"

declare str_nat.simps [simp del]

definition str_int :: "int \<Rightarrow> string" where
  "str_int i = (if i < 0 then CHR ''-'' # str_nat (nat (- i)) else str_nat (nat i))"

text \<open>\<open>s.rstrip('/')\<close>: every trailing slash goes.\<close>

definition rstrip_slash :: "string \<Rightarrow> string" where
  "rstrip_slash s = rev (dropWhile (\<lambda>c. c = CHR ''/'') (rev s))"

text \<open>The comprehension \<open>{k: v for k, v in d.items() if v is not None}\<close>.\<close>

definition omit_none :: "(string \<times> py_value) list \<Rightarrow> (string \<times> py_value) list" where
  "omit_none d = filter (\<lambda>(k, v). v \<noteq> PNone) d"

section \<open>Exceptions\<close>

text \<open>
  Every exception the client raises or lets through, with the arguments of the raise
  site. The classes of \<open>trendsagi.exceptions\<close> are built as \<open>client.py\<close> builds them:
  \<open>AuthenticationError\<close> from one argument (a message or the detail), the four
  status errors from the status code and the detail, \<open>TrendsAGIError\<close> from a message.
  \<open>RequestException\<close> stands for any instance of \<open>requests.exceptions.RequestException\<close>
  that is not a \<open>JSONDecodeError\<close> (a connection error, a timeout, ...), with its
  \<open>str\<close>; \<open>JSONDecodeError\<close> is \<open>requests.exceptions.JSONDecodeError\<close>.
\<close>

datatype py_exception =
    TrendsAGIError string
  | AuthenticationError py_value
  | APIError int py_value
  | NotFoundError int py_value
  | ConflictError int py_value
  | RateLimitError int py_value
  | ValueError string
  | RequestException string
  | JSONDecodeError string
  | AttributeError string
  | TypeError string
  | ValidationError string

text \<open>
  \<open>isinstance(e, requests.exceptions.RequestException)\<close>, the test an
  \<open>except requests.exceptions.RequestException\<close> clause makes. In requests,
  \<open>JSONDecodeError\<close> derives from \<open>InvalidJSONError\<close>, which derives from
  \<open>RequestException\<close>.
\<close>

fun is_RequestException :: "py_exception \<Rightarrow> bool" where
  "is_RequestException (RequestException m) = True"
| "is_RequestException (JSONDecodeError m) = True"
| "is_RequestException e = False"

text \<open>\<open>str(e)\<close> of a requests exception: its message.\<close>

fun str_exc :: "py_exception \<Rightarrow> string" where
  "str_exc (RequestException m) = m"
| "str_exc (JSONDecodeError m) = m"
| "str_exc (TrendsAGIError m) = m"
| "str_exc (ValueError m) = m"
| "str_exc (AttributeError m) = m"
| "str_exc (TypeError m) = m"
| "str_exc (ValidationError m) = m"
| "str_exc e = []"

text \<open>The status code and the detail that a raise site gave to an exception.\<close>

fun exc_status :: "py_exception \<Rightarrow> int option" where
  "exc_status (APIError s d) = Some s"
| "exc_status (NotFoundError s d) = Some s"
| "exc_status (ConflictError s d) = Some s"
| "exc_status (RateLimitError s d) = Some s"
| "exc_status e = None"

fun exc_detail :: "py_exception \<Rightarrow> py_value option" where
  "exc_detail (AuthenticationError d) = Some d"
| "exc_detail (APIError s d) = Some d"
| "exc_detail (NotFoundError s d) = Some d"
| "exc_detail (ConflictError s d) = Some d"
| "exc_detail (RateLimitError s d) = Some d"
| "exc_detail e = None"

text \<open>The error kinds of the client's own taxonomy.\<close>

fun in_taxonomy :: "py_exception \<Rightarrow> bool" where
  "in_taxonomy (TrendsAGIError m) = True"
| "in_taxonomy (AuthenticationError d) = True"
| "in_taxonomy (APIError s d) = True"
| "in_taxonomy (NotFoundError s d) = True"
| "in_taxonomy (ConflictError s d) = True"
| "in_taxonomy (RateLimitError s d) = True"
| "in_taxonomy e = False"

section \<open>The transport and the client\<close>

text \<open>
  What \<open>requests\<close> shows of a response: \<open>status_code\<close>, \<open>text\<close>, and \<open>json()\<close>, which
  returns the parsed body or raises \<open>JSONDecodeError\<close> (\<open>Inl\<close> its message).
\<close>

record response =
  status_code :: int
  resp_text :: string  \<comment> \<open>\<open>response.text\<close>\<close>
  json :: "string + py_value"

text \<open>The keyword arguments an operation hands to \<open>_request\<close>: \<open>params=\<close>, \<open>json=\<close>.\<close>

record kwargs =
  kw_params :: "(string \<times> py_value) list option"
  kw_json :: "py_value option"

text \<open>One call of \<open>Session.request\<close>, with the headers of the session.\<close>

record http_call =
  call_method :: string
  call_url :: string
  call_headers :: "(string \<times> string) list"
  call_kwargs :: kwargs

text \<open>
  \<open>Session.request\<close> returns a response or fails before there is one; requests raises
  its failures (connection, timeout, TLS, ...) as instances of \<open>RequestException\<close>,
  \<open>Failed\<close> carries the \<open>str\<close> of that exception.
\<close>

datatype transport_outcome = Responded response | Failed string

text \<open>
  The world outside \<open>client.py\<close>: the server behind the transport, and
  \<open>models.<Name>.model_validate\<close>, which builds a typed result of type \<open>'m\<close> from a
  parsed payload or raises.
\<close>

record 'm env =
  transport :: "http_call \<Rightarrow> transport_outcome"
  model_validate :: "string \<Rightarrow> py_value \<Rightarrow> py_exception + 'm"

text \<open>What a run does that can be observed from outside, in order.\<close>

datatype event = NetworkCall http_call | JsonParse

record client =
  base_url :: string
  session_headers :: "(string \<times> string) list"

text \<open>\<open>TrendsAGIClient.__init__\<close>; \<open>requests.Session()\<close> opens no connection.\<close>

definition init :: "string \<Rightarrow> string \<Rightarrow> event list \<Rightarrow> (py_exception + client) \<times> event list" where
  "init api_key base log =
     (if api_key = [] then (Inl (AuthenticationError (PStr ''API key is required.'')), log)
      else (Inr \<lparr>base_url = rstrip_slash base,
                 session_headers = [(''X-API-Key'', api_key),
                                    (''Content-Type'', ''application/json''),
                                    (''Accept'', ''application/json'')]\<rparr>, log))"

definition default_base_url :: string where
  "default_base_url = ''https://api.trendsagi.com''"

section \<open>The dispatch routine\<close>

text \<open>\<open>response.json()\<close>, observed.\<close>

definition response_json :: "response \<Rightarrow> event list \<Rightarrow> (py_exception + py_value) \<times> event list" where
  "response_json r log =
     ((case json r of Inl m \<Rightarrow> Inl (JSONDecodeError m) | Inr v \<Rightarrow> Inr v), log @ [JsonParse])"

text \<open>
  Lines 39 to 42: \<open>response.json().get('detail', response.text)\<close>, with the fallback of
  the \<open>except requests.exceptions.JSONDecodeError\<close> clause. Only a dict has \<open>get\<close>.
\<close>

definition error_detail :: "response \<Rightarrow> event list \<Rightarrow> (py_exception + py_value) \<times> event list" where
  "error_detail r log =
     (case response_json r log of
        (Inl e, log') \<Rightarrow>
          (case e of JSONDecodeError m \<Rightarrow> (Inr (PStr (resp_text r)), log')
                   | _ \<Rightarrow> (Inl e, log'))
      | (Inr (PDict d), log') \<Rightarrow>
          (Inr (case map_of d ''detail'' of Some v \<Rightarrow> v | None \<Rightarrow> PStr (resp_text r)), log')
      | (Inr v, log') \<Rightarrow>
          (Inl (AttributeError (quoted (type_name v) @ '' object has no attribute '' @ quoted ''get'')),
           log'))"

definition mk_call :: "client \<Rightarrow> string \<Rightarrow> string \<Rightarrow> kwargs \<Rightarrow> http_call" where
  "mk_call c method endpoint kw =
     \<lparr>call_method = method, call_url = base_url c @ endpoint,
      call_headers = session_headers c, call_kwargs = kw\<rparr>"

text \<open>The body of the \<open>try\<close> of \<open>_request\<close>, lines 32 to 53.\<close>

definition request_try ::
  "'m env \<Rightarrow> client \<Rightarrow> string \<Rightarrow> string \<Rightarrow> kwargs \<Rightarrow> event list
     \<Rightarrow> (py_exception + py_value) \<times> event list" where
  "request_try env c method endpoint kw log =
     (let call = mk_call c method endpoint kw;
          log1 = log @ [NetworkCall call]
      in case transport env call of
           Failed m \<Rightarrow> (Inl (RequestException m), log1)
         | Responded r \<Rightarrow>
             if 200 \<le> status_code r \<and> status_code r < 300 then
               (if status_code r = 204 then (Inr PNone, log1)
                else response_json r log1)
             else
               (case error_detail r log1 of
                  (Inl e, log2) \<Rightarrow> (Inl e, log2)
                | (Inr d, log2) \<Rightarrow>
                    if status_code r = 401 then (Inl (AuthenticationError d), log2)
                    else if status_code r = 404 then (Inl (NotFoundError (status_code r) d), log2)
                    else if status_code r = 409 then (Inl (ConflictError (status_code r) d), log2)
                    else if status_code r = 429 then (Inl (RateLimitError (status_code r) d), log2)
                    else (Inl (APIError (status_code r) d), log2)))"

text \<open>\<open>_request\<close>: the \<open>try\<close> with its \<open>except requests.exceptions.RequestException\<close>.\<close>

definition request ::
  "'m env \<Rightarrow> client \<Rightarrow> string \<Rightarrow> string \<Rightarrow> kwargs \<Rightarrow> event list
     \<Rightarrow> (py_exception + py_value) \<times> event list" where
  "request env c method endpoint kw log =
     (case request_try env c method endpoint kw log of
        (Inl e, log') \<Rightarrow>
          if is_RequestException e
          then (Inl (TrendsAGIError (''Network error communicating with API: '' @ str_exc e)), log')
          else (Inl e, log')
      | (Inr v, log') \<Rightarrow> (Inr v, log'))"

section \<open>The public operations\<close>

text \<open>
  Each operation takes the environment, the client and its Python arguments (a caller
  who leaves an argument out passes its default), and the log so far. An argument that
  goes into a mapping is a Python value, since Python checks no annotation and the
  comprehensions test \<open>is not None\<close>; an argument that is formatted into the path is
  the \<open>int\<close> of its annotation.
\<close>

definition no_kwargs :: kwargs where
  "no_kwargs = \<lparr>kw_params = None, kw_json = None\<rparr>"

definition with_params :: "(string \<times> py_value) list \<Rightarrow> kwargs" where
  "with_params p = \<lparr>kw_params = Some p, kw_json = None\<rparr>"

definition with_json :: "py_value \<Rightarrow> kwargs" where
  "with_json j = \<lparr>kw_params = None, kw_json = Some j\<rparr>"

text \<open>\<open>models.<Name>.model_validate(response_data)\<close> after a dispatch that returned.\<close>

definition then_validate ::
  "'m env \<Rightarrow> string \<Rightarrow> (py_exception + py_value) \<times> event list \<Rightarrow> (py_exception + 'm) \<times> event list" where
  "then_validate env name res =
     (case res of (Inl e, log) \<Rightarrow> (Inl e, log)
                | (Inr v, log) \<Rightarrow> (model_validate env name v, log))"

text \<open>\<open>for item in response_data\<close>: a list gives its items, a dict its keys, a str its characters.\<close>

fun py_iter :: "py_value \<Rightarrow> py_exception + py_value list" where
  "py_iter (PList xs) = Inr xs"
| "py_iter (PDict d) = Inr (map (\<lambda>(k, v). PStr k) d)"
| "py_iter (PStr s) = Inr (map (\<lambda>ch. PStr [ch]) s)"
| "py_iter v = Inl (TypeError (quoted (type_name v) @ '' object is not iterable''))"

fun validate_all :: "'m env \<Rightarrow> string \<Rightarrow> py_value list \<Rightarrow> py_exception + 'm list" where
  "validate_all env name [] = Inr []"
| "validate_all env name (x # xs) =
     (case model_validate env name x of
        Inl e \<Rightarrow> Inl e
      | Inr m \<Rightarrow> (case validate_all env name xs of Inl e \<Rightarrow> Inl e | Inr ms \<Rightarrow> Inr (m # ms)))"

text \<open>\<open>[models.<Name>.model_validate(item) for item in response_data]\<close>.\<close>

definition then_validate_each ::
  "'m env \<Rightarrow> string \<Rightarrow> (py_exception + py_value) \<times> event list \<Rightarrow> (py_exception + 'm list) \<times> event list" where
  "then_validate_each env name res =
     (case res of
        (Inl e, log) \<Rightarrow> (Inl e, log)
      | (Inr v, log) \<Rightarrow>
          (case py_iter v of Inl e \<Rightarrow> (Inl e, log)
                           | Inr items \<Rightarrow> (validate_all env name items, log)))"

text \<open>An operation that drops what the dispatch returned.\<close>

definition then_discard ::
  "(py_exception + py_value) \<times> event list \<Rightarrow> (py_exception + unit) \<times> event list" where
  "then_discard res = (case res of (Inl e, log) \<Rightarrow> (Inl e, log) | (Inr v, log) \<Rightarrow> (Inr (), log))"

subsection \<open>Trends and insights\<close>

text \<open>
  \<open>get_trends\<close> filters \<open>locals()\<close>, which at that line holds \<open>self\<close> and the seven
  arguments in the order of the signature.
\<close>

definition get_trends ::
  "'m env \<Rightarrow> client \<Rightarrow> py_value \<Rightarrow> py_value \<Rightarrow> py_value \<Rightarrow> py_value \<Rightarrow> py_value \<Rightarrow> py_value
     \<Rightarrow> py_value \<Rightarrow> event list \<Rightarrow> (py_exception + 'm) \<times> event list" where
  "get_trends env c search sort_by order limit offset period category log =
     (let locals = [(''self'', PObject), (''search'', search), (''sort_by'', sort_by),
                    (''order'', order), (''limit'', limit), (''offset'', offset),
                    (''period'', period), (''category'', category)];
          params = filter (\<lambda>(k, v). v \<noteq> PNone \<and> k \<noteq> ''self'') locals
      in then_validate env ''TrendListResponse''
           (request env c ''GET'' ''/api/trends'' (with_params params) log))"

definition get_trend_details ::
  "'m env \<Rightarrow> client \<Rightarrow> int \<Rightarrow> event list \<Rightarrow> (py_exception + 'm) \<times> event list" where
  "get_trend_details env c trend_id log =
     then_validate env ''TrendDetail''
       (request env c ''GET'' (''/api/trends/'' @ str_int trend_id) no_kwargs log)"

definition get_trend_analytics ::
  "'m env \<Rightarrow> client \<Rightarrow> int \<Rightarrow> py_value \<Rightarrow> py_value \<Rightarrow> py_value \<Rightarrow> event list
     \<Rightarrow> (py_exception + 'm) \<times> event list" where
  "get_trend_analytics env c trend_id period start_date end_date log =
     (let params = [(''period'', period), (''start_date'', start_date), (''end_date'', end_date)];
          params = omit_none params
      in then_validate env ''TrendAnalytics''
           (request env c ''GET'' (''/api/trends/'' @ str_int trend_id @ ''/analytics'')
              (with_params params) log))"

definition search_insights ::
  "'m env \<Rightarrow> client \<Rightarrow> py_value \<Rightarrow> py_value \<Rightarrow> py_value \<Rightarrow> py_value \<Rightarrow> py_value \<Rightarrow> py_value
     \<Rightarrow> py_value \<Rightarrow> py_value \<Rightarrow> py_value \<Rightarrow> py_value \<Rightarrow> event list
     \<Rightarrow> (py_exception + 'm) \<times> event list" where
  "search_insights env c key_theme_contains audience_keyword angle_contains sentiment_category
       overall_topic_category_llm trend_name_contains limit offset sort_by order log =
     (let params = [(''keyThemeContains'', key_theme_contains), (''audienceKeyword'', audience_keyword),
                    (''angleContains'', angle_contains), (''sentimentCategory'', sentiment_category),
                    (''overallTopicCategoryLlm'', overall_topic_category_llm),
                    (''trendNameContains'', trend_name_contains),
                    (''limit'', limit), (''offset'', offset), (''sort_by'', sort_by), (''order'', order)];
          params = omit_none params
      in then_validate env ''InsightSearchResponse''
           (request env c ''GET'' ''/api/insights/search'' (with_params params) log))"

definition get_ai_insights ::
  "'m env \<Rightarrow> client \<Rightarrow> int \<Rightarrow> py_value \<Rightarrow> event list \<Rightarrow> (py_exception + 'm option) \<times> event list" where
  "get_ai_insights env c trend_id force_refresh log =
     (case request env c ''GET'' (''/api/trends/'' @ str_int trend_id @ ''/ai-insights'')
             (with_params [(''force_refresh'', force_refresh)]) log of
        (Inl e, log') \<Rightarrow> (Inl e, log')
      | (Inr response_data, log') \<Rightarrow>
          if truthy response_data
          then (case model_validate env ''AIInsight'' response_data of
                  Inl e \<Rightarrow> (Inl e, log') | Inr m \<Rightarrow> (Inr (Some m), log'))
          else (Inr None, log'))"

subsection \<open>Custom reports\<close>

definition generate_custom_report ::
  "'m env \<Rightarrow> client \<Rightarrow> py_value \<Rightarrow> event list \<Rightarrow> (py_exception + 'm) \<times> event list" where
  "generate_custom_report env c report_request log =
     then_validate env ''CustomReport''
       (request env c ''POST'' ''/api/reports/custom'' (with_json report_request) log)"

subsection \<open>Intelligence suite\<close>

definition get_recommendations ::
  "'m env \<Rightarrow> client \<Rightarrow> py_value \<Rightarrow> py_value \<Rightarrow> py_value \<Rightarrow> py_value \<Rightarrow> py_value \<Rightarrow> py_value
     \<Rightarrow> event list \<Rightarrow> (py_exception + 'm) \<times> event list" where
  "get_recommendations env c limit offset recommendation_type source_trend_query priority status log =
     (let params = [(''limit'', limit), (''offset'', offset), (''type'', recommendation_type),
                    (''sourceTrendQ'', source_trend_query), (''priority'', priority),
                    (''status'', status)];
          params = omit_none params
      in then_validate env ''RecommendationListResponse''
           (request env c ''GET'' ''/api/intelligence/recommendations'' (with_params params) log))"

definition perform_recommendation_action ::
  "'m env \<Rightarrow> client \<Rightarrow> int \<Rightarrow> py_value \<Rightarrow> py_value \<Rightarrow> event list
     \<Rightarrow> (py_exception + 'm) \<times> event list" where
  "perform_recommendation_action env c recommendation_id action feedback log =
     (if truthy action \<and> truthy feedback then
        (Inl (ValueError (''Only one of '' @ quoted ''action'' @ '' or '' @ quoted ''feedback''
                            @ '' can be provided at a time.'')), log)
      else if \<not> truthy action \<and> \<not> truthy feedback then
        (Inl (ValueError (''Either '' @ quoted ''action'' @ '' or '' @ quoted ''feedback''
                            @ '' must be provided.'')), log)
      else
        (let payload = [(''action'', action), (''feedback'', feedback)];
             payload = omit_none payload
         in then_validate env ''Recommendation''
              (request env c ''POST''
                 (''/api/intelligence/recommendations/'' @ str_int recommendation_id @ ''/action'')
                 (with_json (PDict payload)) log)))"

definition get_tracked_x_users ::
  "'m env \<Rightarrow> client \<Rightarrow> py_value \<Rightarrow> py_value \<Rightarrow> py_value \<Rightarrow> event list
     \<Rightarrow> (py_exception + 'm) \<times> event list" where
  "get_tracked_x_users env c q min_followers sort_by log =
     (let params = [(''q'', q), (''min_followers'', min_followers), (''sort_by'', sort_by)];
          params = omit_none params
      in then_validate env ''MarketEntityListResponse''
           (request env c ''GET'' ''/api/intelligence/market/x-users'' (with_params params) log))"

definition get_tracked_x_user ::
  "'m env \<Rightarrow> client \<Rightarrow> int \<Rightarrow> event list \<Rightarrow> (py_exception + 'm) \<times> event list" where
  "get_tracked_x_user env c entity_id log =
     then_validate env ''MarketEntity''
       (request env c ''GET'' (''/api/intelligence/market/x-users/'' @ str_int entity_id) no_kwargs log)"

definition create_tracked_x_user ::
  "'m env \<Rightarrow> client \<Rightarrow> py_value \<Rightarrow> py_value \<Rightarrow> py_value \<Rightarrow> py_value \<Rightarrow> event list
     \<Rightarrow> (py_exception + 'm) \<times> event list" where
  "create_tracked_x_user env c handle name description notes log =
     (let payload = [(''handle'', handle), (''name'', name), (''description'', description),
                     (''notes'', notes)];
          payload = omit_none payload
      in then_validate env ''MarketEntity''
           (request env c ''POST'' ''/api/intelligence/market/x-users'' (with_json (PDict payload)) log))"

definition update_tracked_x_user ::
  "'m env \<Rightarrow> client \<Rightarrow> int \<Rightarrow> py_value \<Rightarrow> event list \<Rightarrow> (py_exception + 'm) \<times> event list" where
  "update_tracked_x_user env c entity_id updates log =
     then_validate env ''MarketEntity''
       (request env c ''PUT'' (''/api/intelligence/market/x-users/'' @ str_int entity_id)
          (with_json updates) log)"

definition delete_tracked_x_user ::
  "'m env \<Rightarrow> client \<Rightarrow> int \<Rightarrow> event list \<Rightarrow> (py_exception + unit) \<times> event list" where
  "delete_tracked_x_user env c entity_id log =
     then_discard
       (request env c ''DELETE'' (''/api/intelligence/market/x-users/'' @ str_int entity_id) no_kwargs log)"

definition get_crisis_events ::
  "'m env \<Rightarrow> client \<Rightarrow> py_value \<Rightarrow> py_value \<Rightarrow> py_value \<Rightarrow> py_value \<Rightarrow> py_value \<Rightarrow> py_value
     \<Rightarrow> py_value \<Rightarrow> py_value \<Rightarrow> event list \<Rightarrow> (py_exception + 'm) \<times> event list" where
  "get_crisis_events env c limit offset status keyword severity time_range start_date end_date log =
     (let params = [(''limit'', limit), (''offset'', offset), (''status'', status),
                    (''keyword'', keyword), (''severity'', severity), (''timeRange'', time_range),
                    (''startDate'', start_date), (''endDate'', end_date)];
          params = omit_none params
      in then_validate env ''CrisisEventListResponse''
           (request env c ''GET'' ''/api/intelligence/crisis-events'' (with_params params) log))"

definition get_crisis_event ::
  "'m env \<Rightarrow> client \<Rightarrow> int \<Rightarrow> event list \<Rightarrow> (py_exception + 'm) \<times> event list" where
  "get_crisis_event env c event_id log =
     then_validate env ''CrisisEvent''
       (request env c ''GET'' (''/api/intelligence/crisis-events/'' @ str_int event_id) no_kwargs log)"

definition perform_crisis_event_action ::
  "'m env \<Rightarrow> client \<Rightarrow> int \<Rightarrow> py_value \<Rightarrow> event list \<Rightarrow> (py_exception + 'm) \<times> event list" where
  "perform_crisis_event_action env c event_id action log =
     then_validate env ''CrisisEvent''
       (request env c ''POST'' (''/api/intelligence/crisis-events/'' @ str_int event_id @ ''/action'')
          (with_json (PDict [(''action'', action)])) log)"

definition perform_deep_analysis ::
  "'m env \<Rightarrow> client \<Rightarrow> py_value \<Rightarrow> py_value \<Rightarrow> event list \<Rightarrow> (py_exception + 'm) \<times> event list" where
  "perform_deep_analysis env c query force_refresh log =
     then_validate env ''DeepAnalysis''
       (request env c ''POST'' ''/api/intelligence/deep-analysis''
          (with_json (PDict [(''query'', query), (''force_refresh'', force_refresh)])) log)"

subsection \<open>User and account management\<close>

definition get_topic_interests ::
  "'m env \<Rightarrow> client \<Rightarrow> event list \<Rightarrow> (py_exception + 'm list) \<times> event list" where
  "get_topic_interests env c log =
     then_validate_each env ''TopicInterest''
       (request env c ''GET'' ''/api/user/topic-interests'' no_kwargs log)"

definition create_topic_interest ::
  "'m env \<Rightarrow> client \<Rightarrow> py_value \<Rightarrow> py_value \<Rightarrow> py_value \<Rightarrow> py_value \<Rightarrow> event list
     \<Rightarrow> (py_exception + 'm) \<times> event list" where
  "create_topic_interest env c keyword alert_condition_type volume_threshold_value
       percentage_growth_value log =
     (let payload = [(''keyword'', keyword), (''alert_condition_type'', alert_condition_type),
                     (''volume_threshold_value'', volume_threshold_value),
                     (''percentage_growth_value'', percentage_growth_value)];
          payload = omit_none payload
      in then_validate env ''TopicInterest''
           (request env c ''POST'' ''/api/user/topic-interests'' (with_json (PDict payload)) log))"

definition delete_topic_interest ::
  "'m env \<Rightarrow> client \<Rightarrow> int \<Rightarrow> event list \<Rightarrow> (py_exception + unit) \<times> event list" where
  "delete_topic_interest env c interest_id log =
     then_discard
       (request env c ''DELETE'' (''/api/user/topic-interests/'' @ str_int interest_id) no_kwargs log)"

definition get_export_settings ::
  "'m env \<Rightarrow> client \<Rightarrow> event list \<Rightarrow> (py_exception + 'm list) \<times> event list" where
  "get_export_settings env c log =
     then_validate_each env ''ExportConfiguration''
       (request env c ''GET'' ''/api/user/export/settings'' no_kwargs log)"

definition save_export_settings ::
  "'m env \<Rightarrow> client \<Rightarrow> py_value \<Rightarrow> py_value \<Rightarrow> py_value \<Rightarrow> py_value \<Rightarrow> py_value \<Rightarrow> py_value
     \<Rightarrow> event list \<Rightarrow> (py_exception + 'm) \<times> event list" where
  "save_export_settings env c destination config schedule schedule_time is_active config_id log =
     (let payload = [(''id'', config_id), (''destination'', destination), (''config'', config),
                     (''schedule'', schedule), (''schedule_time'', schedule_time),
                     (''is_active'', is_active)];
          payload = omit_none payload
      in then_validate env ''ExportConfiguration''
           (request env c ''POST'' ''/api/user/export/settings'' (with_json (PDict payload)) log))"

definition delete_export_setting ::
  "'m env \<Rightarrow> client \<Rightarrow> int \<Rightarrow> event list \<Rightarrow> (py_exception + unit) \<times> event list" where
  "delete_export_setting env c config_id log =
     then_discard
       (request env c ''DELETE'' (''/api/user/export/settings/'' @ str_int config_id) no_kwargs log)"

definition get_export_history ::
  "'m env \<Rightarrow> client \<Rightarrow> py_value \<Rightarrow> py_value \<Rightarrow> event list \<Rightarrow> (py_exception + 'm) \<times> event list" where
  "get_export_history env c limit offset log =
     then_validate env ''ExportHistoryResponse''
       (request env c ''GET'' ''/api/user/export/history''
          (with_params [(''limit'', limit), (''offset'', offset)]) log)"

definition run_export_now ::
  "'m env \<Rightarrow> client \<Rightarrow> int \<Rightarrow> event list \<Rightarrow> (py_exception + 'm) \<times> event list" where
  "run_export_now env c config_id log =
     then_validate env ''ExportExecutionLog''
       (request env c ''POST'' (''/api/user/export/configurations/'' @ str_int config_id @ ''/run-now'')
          no_kwargs log)"

definition get_dashboard_stats ::
  "'m env \<Rightarrow> client \<Rightarrow> event list \<Rightarrow> (py_exception + 'm) \<times> event list" where
  "get_dashboard_stats env c log =
     then_validate env ''DashboardStats''
       (request env c ''GET'' ''/api/user/dashboard/stats'' no_kwargs log)"

definition get_recent_notifications ::
  "'m env \<Rightarrow> client \<Rightarrow> py_value \<Rightarrow> event list \<Rightarrow> (py_exception + 'm) \<times> event list" where
  "get_recent_notifications env c limit log =
     then_validate env ''NotificationListResponse''
       (request env c ''GET'' ''/api/user/notifications/recent'' (with_params [(''limit'', limit)]) log)"

definition mark_notifications_read ::
  "'m env \<Rightarrow> client \<Rightarrow> py_value \<Rightarrow> event list \<Rightarrow> (py_exception + py_value) \<times> event list" where
  "mark_notifications_read env c ids log =
     (let payload = [(''ids'', if ids \<noteq> PNone then ids else PList [])]
      in request env c ''POST'' ''/api/user/notifications/mark-read'' (with_json (PDict payload)) log)"

subsection \<open>Public information and status\<close>

definition get_available_plans ::
  "'m env \<Rightarrow> client \<Rightarrow> event list \<Rightarrow> (py_exception + 'm list) \<times> event list" where
  "get_available_plans env c log =
     then_validate_each env ''SubscriptionPlan'' (request env c ''GET'' ''/api/plans'' no_kwargs log)"

definition get_api_status ::
  "'m env \<Rightarrow> client \<Rightarrow> event list \<Rightarrow> (py_exception + 'm) \<times> event list" where
  "get_api_status env c log =
     then_validate env ''StatusPage'' (request env c ''GET'' ''/api/status'' no_kwargs log)"

definition get_api_status_history ::
  "'m env \<Rightarrow> client \<Rightarrow> event list \<Rightarrow> (py_exception + 'm) \<times> event list" where
  "get_api_status_history env c log =
     then_validate env ''StatusHistoryResponse''
       (request env c ''GET'' ''/api/status-history'' no_kwargs log)"

section \<open>Observations\<close>

text \<open>The exception a run raised, if it raised.\<close>

definition raised :: "(py_exception + 'a) \<times> event list \<Rightarrow> py_exception option" where
  "raised res = (case fst res of Inl e \<Rightarrow> Some e | Inr v \<Rightarrow> None)"

text \<open>The network calls of a log, in order.\<close>

fun calls_of :: "event list \<Rightarrow> http_call list" where
  "calls_of [] = []"
| "calls_of (NetworkCall call # es) = call # calls_of es"
| "calls_of (JsonParse # es) = calls_of es"

text \<open>
  The mapping a call transmits: its query parameters, or its JSON body when that is a
  dict. \<open>transmitted\<close> lists the mappings of a log's calls.
\<close>

definition sent_mapping :: "http_call \<Rightarrow> (string \<times> py_value) list option" where
  "sent_mapping call =
     (case kw_params (call_kwargs call) of
        Some p \<Rightarrow> Some p
      | None \<Rightarrow> (case kw_json (call_kwargs call) of Some (PDict d) \<Rightarrow> Some d | _ \<Rightarrow> None))"

definition transmitted :: "event list \<Rightarrow> (string \<times> py_value) list list" where
  "transmitted log =
     concat (map (\<lambda>call. case sent_mapping call of Some d \<Rightarrow> [d] | None \<Rightarrow> []) (calls_of log))"

text \<open>
  The omit-if-unset rule, for the named arguments \<open>args\<close> of an operation (key and
  value) and the mapping \<open>sent\<close>: an argument that is \<open>None\<close> has no entry, no entry
  holds \<open>None\<close>, and every other argument is sent as it is.
\<close>

definition omits_unset :: "(string \<times> py_value) list \<Rightarrow> (string \<times> py_value) list \<Rightarrow> bool" where
  "omits_unset args sent \<longleftrightarrow>
     (\<forall>(k, v) \<in> set args. v = PNone \<longrightarrow> k \<notin> fst ` set sent)
     \<and> PNone \<notin> snd ` set sent
     \<and> (\<forall>(k, v) \<in> set args. v \<noteq> PNone \<longrightarrow> (k, v) \<in> set sent)"

subsection \<open>Concrete environments\<close>

text \<open>
  A server that answers every call with the response \<open>r\<close>, and a transport that fails
  with the message \<open>m\<close>; typed results are kept as the parsed payload.
\<close>

definition serving :: "response \<Rightarrow> py_value env" where
  "serving r = \<lparr>transport = (\<lambda>call. Responded r), model_validate = (\<lambda>name v. Inr v)\<rparr>"

definition unreachable :: "string \<Rightarrow> py_value env" where
  "unreachable m = \<lparr>transport = (\<lambda>call. Failed m), model_validate = (\<lambda>name v. Inr v)\<rparr>"

definition ok_response :: response where
  "ok_response = \<lparr>status_code = 200, resp_text = ''{}'', json = Inr (PDict [])\<rparr>"

text \<open>Error responses whose body is a JSON object with a \<open>detail\<close> key.\<close>

definition not_found_response :: response where
  "not_found_response =
     \<lparr>status_code = 404, resp_text = ''{\"detail\": \"Trend not found\"}'',
      json = Inr (PDict [(''detail'', PStr ''Trend not found'')])\<rparr>"

definition rate_limit_response :: response where
  "rate_limit_response =
     \<lparr>status_code = 429, resp_text = ''{\"detail\": {\"retry_after\": 30}, \"code\": 429}'',
      json = Inr (PDict [(''detail'', PDict [(''retry_after'', PInt 30)]), (''code'', PInt 429)])\<rparr>"

definition invalid_key_response :: response where
  "invalid_key_response =
     \<lparr>status_code = 401, resp_text = ''{\"detail\": \"Invalid API key\"}'',
      json = Inr (PDict [(''detail'', PStr ''Invalid API key'')])\<rparr>"

definition a_client :: client where
  "a_client = \<lparr>base_url = ''https://api.trendsagi.com'',
               session_headers = [(''X-API-Key'', ''k''), (''Content-Type'', ''application/json''),
                                  (''Accept'', ''application/json'')]\<rparr>"

section \<open>Auxiliary facts\<close>

lemmas request_defs = request_def request_try_def Let_def response_json_def error_detail_def

lemmas request_splits =
  transport_outcome.splits sum.splits prod.splits py_exception.splits py_value.splits if_splits

lemma calls_of_append [simp]: "calls_of (xs @ ys) = calls_of xs @ calls_of ys"
  by (induction xs rule: calls_of.induct) simp_all

text \<open>Every dispatch makes exactly one network call, the one assembled from its arguments.\<close>

lemma request_calls:
  "calls_of (snd (request env c m e kw log)) = calls_of log @ [mk_call c m e kw]"
  by (auto simp: request_defs split: request_splits)

lemma then_validate_log [simp]: "snd (then_validate env n res) = snd res"
  by (simp add: then_validate_def split: prod.splits sum.splits)

lemma then_validate_each_log [simp]: "snd (then_validate_each env n res) = snd res"
  by (simp add: then_validate_each_def split: prod.splits sum.splits)

lemma then_discard_log [simp]: "snd (then_discard res) = snd res"
  by (simp add: then_discard_def split: prod.splits sum.splits)

lemma transmitted_request:
  "transmitted (snd (request env c m e kw log)) =
     transmitted log @ (case sent_mapping (mk_call c m e kw) of Some d \<Rightarrow> [d] | None \<Rightarrow> [])"
  by (simp add: transmitted_def request_calls)

lemma sent_mapping_params [simp]: "sent_mapping (mk_call c m e (with_params p)) = Some p"
  by (simp add: sent_mapping_def mk_call_def with_params_def)

lemma sent_mapping_json [simp]: "sent_mapping (mk_call c m e (with_json (PDict d))) = Some d"
  by (simp add: sent_mapping_def mk_call_def with_json_def)

lemma transmitted_Nil [simp]: "transmitted [] = []"
  by (simp add: transmitted_def)

text \<open>The comprehension implements the omit-if-unset rule on a mapping with distinct keys.\<close>

lemma omits_unset_omit_none:
  "distinct (map fst args) \<Longrightarrow> omits_unset args (omit_none args)"
  unfolding omits_unset_def omit_none_def
  by (auto simp: eq_key_imp_eq_value)

lemma sent_follows_rule:
  "distinct (map fst args) \<Longrightarrow>
     \<exists>sent. before @ [omit_none args] = before @ [sent] \<and> omits_unset args sent"
  by (simp add: omits_unset_omit_none)

lemma omits_unset_absent:
  "omits_unset args sent \<Longrightarrow> (k, PNone) \<in> set args \<Longrightarrow> k \<notin> fst ` set sent"
  unfolding omits_unset_def by blast

text \<open>The extracted detail does not depend on the log.\<close>

lemma fst_error_detail: "fst (error_detail r log) = fst (error_detail r [])"
  by (simp add: error_detail_def response_json_def split: request_splits)

subsection \<open>What each filtering operation transmits\<close>

lemma get_trends_sent:
  "transmitted (snd (get_trends env c search sort_by order limit offset period category log)) =
     transmitted log @ [omit_none [(''search'', search), (''sort_by'', sort_by), (''order'', order),
       (''limit'', limit), (''offset'', offset), (''period'', period), (''category'', category)]]"
  by (simp add: get_trends_def transmitted_request omit_none_def)

lemma get_trend_analytics_sent:
  "transmitted (snd (get_trend_analytics env c trend_id period start_date end_date log)) =
     transmitted log @ [omit_none [(''period'', period), (''start_date'', start_date),
       (''end_date'', end_date)]]"
  by (simp add: get_trend_analytics_def transmitted_request)

lemma search_insights_sent:
  "transmitted (snd (search_insights env c key_theme_contains audience_keyword angle_contains
       sentiment_category overall_topic_category_llm trend_name_contains limit offset sort_by order log)) =
     transmitted log @ [omit_none [(''keyThemeContains'', key_theme_contains),
       (''audienceKeyword'', audience_keyword), (''angleContains'', angle_contains),
       (''sentimentCategory'', sentiment_category),
       (''overallTopicCategoryLlm'', overall_topic_category_llm),
       (''trendNameContains'', trend_name_contains),
       (''limit'', limit), (''offset'', offset), (''sort_by'', sort_by), (''order'', order)]]"
  by (simp add: search_insights_def transmitted_request)

lemma get_recommendations_sent:
  "transmitted (snd (get_recommendations env c limit offset recommendation_type source_trend_query
       priority status log)) =
     transmitted log @ [omit_none [(''limit'', limit), (''offset'', offset),
       (''type'', recommendation_type), (''sourceTrendQ'', source_trend_query),
       (''priority'', priority), (''status'', status)]]"
  by (simp add: get_recommendations_def transmitted_request)

lemma perform_recommendation_action_sent:
  "transmitted (snd (perform_recommendation_action env c recommendation_id action feedback log)) =
     transmitted log @
       (if truthy action = truthy feedback then []
        else [omit_none [(''action'', action), (''feedback'', feedback)]])"
  by (auto simp: perform_recommendation_action_def transmitted_request)

lemma get_tracked_x_users_sent:
  "transmitted (snd (get_tracked_x_users env c q min_followers sort_by log)) =
     transmitted log @ [omit_none [(''q'', q), (''min_followers'', min_followers),
       (''sort_by'', sort_by)]]"
  by (simp add: get_tracked_x_users_def transmitted_request)

lemma create_tracked_x_user_sent:
  "transmitted (snd (create_tracked_x_user env c handle name description notes log)) =
     transmitted log @ [omit_none [(''handle'', handle), (''name'', name),
       (''description'', description), (''notes'', notes)]]"
  by (simp add: create_tracked_x_user_def transmitted_request)

lemma get_crisis_events_sent:
  "transmitted (snd (get_crisis_events env c limit offset status keyword severity time_range
       start_date end_date log)) =
     transmitted log @ [omit_none [(''limit'', limit), (''offset'', offset), (''status'', status),
       (''keyword'', keyword), (''severity'', severity), (''timeRange'', time_range),
       (''startDate'', start_date), (''endDate'', end_date)]]"
  by (simp add: get_crisis_events_def transmitted_request)

lemma create_topic_interest_sent:
  "transmitted (snd (create_topic_interest env c keyword alert_condition_type
       volume_threshold_value percentage_growth_value log)) =
     transmitted log @ [omit_none [(''keyword'', keyword),
       (''alert_condition_type'', alert_condition_type),
       (''volume_threshold_value'', volume_threshold_value),
       (''percentage_growth_value'', percentage_growth_value)]]"
  by (simp add: create_topic_interest_def transmitted_request)

lemma save_export_settings_sent:
  "transmitted (snd (save_export_settings env c destination config schedule schedule_time
       is_active config_id log)) =
     transmitted log @ [omit_none [(''id'', config_id), (''destination'', destination),
       (''config'', config), (''schedule'', schedule), (''schedule_time'', schedule_time),
       (''is_active'', is_active)]]"
  by (simp add: save_export_settings_def transmitted_request)

lemma mark_notifications_read_sent:
  "transmitted (snd (mark_notifications_read env c ids log)) =
     transmitted log @ [[(''ids'', if ids \<noteq> PNone then ids else PList [])]]"
  by (simp add: mark_notifications_read_def transmitted_request)

section \<open>The dispatch routine: status classification\<close>

text \<open>
  Claim C1, at status 401: a response with status 401 and the body \<open>Unauthorized\<close> makes
  the dispatch raise \<open>AuthenticationError\<close> built from the detail alone; the error
  carries no status code.
\<close>

theorem dispatch_401_carries_no_status:
  "raised (request (serving \<lparr>status_code = 401, resp_text = ''Unauthorized'',
                              json = Inl ''Expecting value: line 1 column 1 (char 0)''\<rparr>)
             a_client ''GET'' ''/api/status'' no_kwargs [])
     = Some (AuthenticationError (PStr ''Unauthorized''))
   \<and> Option.bind
        (raised (request (serving \<lparr>status_code = 401, resp_text = ''Unauthorized'',
                                     json = Inl ''Expecting value: line 1 column 1 (char 0)''\<rparr>)
                   a_client ''GET'' ''/api/status'' no_kwargs []))
        exc_status = None"
  by (simp add: raised_def request_defs serving_def)

text \<open>
  Claim C1, amended: for a response with status outside [200, 300) whose body is not
  valid JSON or is a JSON object, the detail \<open>d\<close> is the value under the body's
  \<open>detail\<close> key when the body is an object that has this key, and the response text
  otherwise; the dispatch raises exactly \<open>NotFoundError\<close>, \<open>ConflictError\<close> or
  \<open>RateLimitError\<close> with the status code and \<open>d\<close> for 404, 409 and 429,
  \<open>AuthenticationError\<close> with \<open>d\<close> alone for 401, and \<open>APIError\<close> with the status code
  and \<open>d\<close> for every other status.
\<close>

theorem dispatch_error_kind:
  assumes "transport env (mk_call c m e kw) = Responded r"
    and "\<not> (200 \<le> status_code r \<and> status_code r < 300)"
    and "(json r = Inl msg \<and> d = PStr (resp_text r))
         \<or> (json r = Inr (PDict obj)
             \<and> d = (case map_of obj ''detail'' of Some v \<Rightarrow> v | None \<Rightarrow> PStr (resp_text r)))"
  shows "raised (request env c m e kw log) =
           Some (if status_code r = 401 then AuthenticationError d
                 else if status_code r = 404 then NotFoundError (status_code r) d
                 else if status_code r = 409 then ConflictError (status_code r) d
                 else if status_code r = 429 then RateLimitError (status_code r) d
                 else APIError (status_code r) d)"
proof -
  let ?log1 = "log @ [NetworkCall (mk_call c m e kw)]"
  have ed: "error_detail r ?log1 = (Inr d, ?log1 @ [JsonParse])"
    using assms(3) by (auto simp: error_detail_def response_json_def)
  have "request_try env c m e kw log =
          (Inl (if status_code r = 401 then AuthenticationError d
                else if status_code r = 404 then NotFoundError (status_code r) d
                else if status_code r = 409 then ConflictError (status_code r) d
                else if status_code r = 429 then RateLimitError (status_code r) d
                else APIError (status_code r) d), ?log1 @ [JsonParse])"
    using assms(1,2) ed by (auto simp: request_try_def Let_def)
  then show ?thesis
    by (simp add: request_def raised_def)
qed

theorem dispatch_error_kind_witness:
  "raised (request (serving not_found_response) a_client ''GET'' ''/api/trends/7'' no_kwargs [])
     = Some (NotFoundError 404 (PStr ''Trend not found''))
   \<and> raised (request (serving rate_limit_response) a_client ''GET'' ''/api/trends/7'' no_kwargs [])
     = Some (RateLimitError 429 (PDict [(''retry_after'', PInt 30)]))
   \<and> raised (request (serving invalid_key_response) a_client ''GET'' ''/api/trends/7'' no_kwargs [])
     = Some (AuthenticationError (PStr ''Invalid API key''))
   \<and> raised (request (serving \<lparr>status_code = 409, resp_text = ''Conflict'',
                              json = Inl ''Expecting value: line 1 column 1 (char 0)''\<rparr>)
             a_client ''GET'' ''/api/trends/7'' no_kwargs [])
     = Some (ConflictError 409 (PStr ''Conflict''))
   \<and> raised (request (serving \<lparr>status_code = 503, resp_text = ''{}'', json = Inr (PDict [])\<rparr>)
             a_client ''GET'' ''/api/trends/7'' no_kwargs [])
     = Some (APIError 503 (PStr ''{}''))"
  using dispatch_error_kind [of "serving not_found_response"
            a_client "''GET''" "''/api/trends/7''" no_kwargs not_found_response
            "[]" "PStr ''Trend not found''" "[(''detail'', PStr ''Trend not found'')]" "[]"]
        dispatch_error_kind [of "serving rate_limit_response"
            a_client "''GET''" "''/api/trends/7''" no_kwargs rate_limit_response
            "[]" "PDict [(''retry_after'', PInt 30)]"
            "[(''detail'', PDict [(''retry_after'', PInt 30)]), (''code'', PInt 429)]" "[]"]
        dispatch_error_kind [of "serving invalid_key_response"
            a_client "''GET''" "''/api/trends/7''" no_kwargs invalid_key_response
            "[]" "PStr ''Invalid API key''" "[(''detail'', PStr ''Invalid API key'')]" "[]"]
        dispatch_error_kind [of "serving \<lparr>status_code = 409, resp_text = ''Conflict'',
                              json = Inl ''Expecting value: line 1 column 1 (char 0)''\<rparr>"
            a_client "''GET''" "''/api/trends/7''" no_kwargs
            "\<lparr>status_code = 409, resp_text = ''Conflict'',
                              json = Inl ''Expecting value: line 1 column 1 (char 0)''\<rparr>"
            "''Expecting value: line 1 column 1 (char 0)''" "PStr ''Conflict''" "[]" "[]"]
        dispatch_error_kind [of "serving \<lparr>status_code = 503, resp_text = ''{}'', json = Inr (PDict [])\<rparr>"
            a_client "''GET''" "''/api/trends/7''" no_kwargs
            "\<lparr>status_code = 503, resp_text = ''{}'', json = Inr (PDict [])\<rparr>"
            "[]" "PStr ''{}''" "[]" "[]"]
  by (simp add: serving_def not_found_response_def rate_limit_response_def invalid_key_response_def)

text \<open>
  Claim C2, at a failing input: a response with status 500 whose body is the JSON array
  \<open>[]\<close>. The body parses, a list has no \<open>get\<close>, and the \<open>AttributeError\<close> passes both
  \<open>except\<close> clauses: the call fails with an exception outside the taxonomy.
\<close>

theorem dispatch_non_object_error_body:
  "raised (request (serving \<lparr>status_code = 500, resp_text = ''[]'', json = Inr (PList [])\<rparr>)
             a_client ''GET'' ''/api/status'' no_kwargs [])
     = Some (AttributeError (quoted ''list'' @ '' object has no attribute '' @ quoted ''get''))
   \<and> \<not> in_taxonomy (AttributeError (quoted ''list'' @ '' object has no attribute '' @ quoted ''get''))"
  by (simp add: raised_def request_defs serving_def)

text \<open>
  Claim C3, at a failing input: a response with status 200 whose body is not JSON. The
  \<open>JSONDecodeError\<close> of \<open>response.json()\<close> is a \<open>RequestException\<close>, so the handler meant
  for the transport catches it: the call fails with the same error kind and the same
  message prefix as a call whose transport failed before any response.
\<close>

theorem dispatch_2xx_invalid_json:
  "request (serving \<lparr>status_code = 200, resp_text = ''<html>'',
                      json = Inl ''Expecting value: line 1 column 1 (char 0)''\<rparr>)
     a_client ''GET'' ''/api/status'' no_kwargs []
     = (Inl (TrendsAGIError
          ''Network error communicating with API: Expecting value: line 1 column 1 (char 0)''),
        [NetworkCall (mk_call a_client ''GET'' ''/api/status'' no_kwargs), JsonParse])
   \<and> request (unreachable ''Connection refused'') a_client ''GET'' ''/api/status'' no_kwargs []
     = (Inl (TrendsAGIError ''Network error communicating with API: Connection refused''),
        [NetworkCall (mk_call a_client ''GET'' ''/api/status'' no_kwargs)])"
  by (simp add: request_defs serving_def unreachable_def)

section \<open>The dispatch routine: the success path\<close>

text \<open>
  Claim C5: for a response with status 204 the dispatch returns \<open>None\<close> and the log
  gains the network call only, no \<open>json()\<close> call, whatever the body is; for any other
  status in [200, 300) whose body parses to \<open>v\<close> it calls \<open>json()\<close> and returns \<open>v\<close>;
  and whenever the dispatch returns a value, it came by one of these two ways.
\<close>

theorem dispatch_success_path:
  "(transport env (mk_call c m e kw) = Responded r \<and> status_code r = 204 \<longrightarrow>
      request env c m e kw log = (Inr PNone, log @ [NetworkCall (mk_call c m e kw)]))
   \<and> (transport env (mk_call c m e kw) = Responded r \<and> 200 \<le> status_code r \<and> status_code r < 300
        \<and> status_code r \<noteq> 204 \<and> json r = Inr v \<longrightarrow>
      request env c m e kw log = (Inr v, log @ [NetworkCall (mk_call c m e kw), JsonParse]))
   \<and> (fst (request env c m e kw log) = Inr v \<longrightarrow>
        (\<exists>r. transport env (mk_call c m e kw) = Responded r
           \<and> 200 \<le> status_code r \<and> status_code r < 300
           \<and> (if status_code r = 204 then v = PNone else json r = Inr v)))"
  by (auto simp: request_defs split: request_splits)

theorem dispatch_success_path_witness:
  "request (serving \<lparr>status_code = 204, resp_text = '''',
                      json = Inl ''Expecting value: line 1 column 1 (char 0)''\<rparr>)
     a_client ''DELETE'' ''/api/user/topic-interests/3'' no_kwargs []
     = (Inr PNone, [NetworkCall (mk_call a_client ''DELETE'' ''/api/user/topic-interests/3'' no_kwargs)])
   \<and> request (serving \<lparr>status_code = 200, resp_text = ''[]'', json = Inr (PList [])\<rparr>)
     a_client ''GET'' ''/api/plans'' no_kwargs []
     = (Inr (PList []), [NetworkCall (mk_call a_client ''GET'' ''/api/plans'' no_kwargs), JsonParse])"
  using dispatch_success_path [of "serving \<lparr>status_code = 204, resp_text = '''',
                      json = Inl ''Expecting value: line 1 column 1 (char 0)''\<rparr>"
            a_client "''DELETE''" "''/api/user/topic-interests/3''" no_kwargs
            "\<lparr>status_code = 204, resp_text = '''',
                      json = Inl ''Expecting value: line 1 column 1 (char 0)''\<rparr>" "[]" PNone]
        dispatch_success_path [of "serving \<lparr>status_code = 200, resp_text = ''[]'', json = Inr (PList [])\<rparr>"
            a_client "''GET''" "''/api/plans''" no_kwargs
            "\<lparr>status_code = 200, resp_text = ''[]'', json = Inr (PList [])\<rparr>" "[]" "PList []"]
  by (simp add: serving_def)

section \<open>The dispatch routine: the detail of an error\<close>

text \<open>
  Claim C6: for a response with status outside [200, 300) whose body is not valid JSON,
  the dispatch raises an error whose detail is the response text, unchanged.
\<close>

theorem detail_of_unparseable_body:
  assumes "transport env (mk_call c m e kw) = Responded r"
    and "\<not> (200 \<le> status_code r \<and> status_code r < 300)"
    and "json r = Inl msg"
  shows "\<exists>x. raised (request env c m e kw log) = Some x \<and> exc_detail x = Some (PStr (resp_text r))"
  using assms by (auto simp: raised_def request_defs split: request_splits)

theorem detail_of_unparseable_body_witness:
  "\<exists>x. raised (request (serving \<lparr>status_code = 503, resp_text = ''Service Unavailable'',
                                   json = Inl ''Expecting value: line 1 column 1 (char 0)''\<rparr>)
                a_client ''GET'' ''/api/status'' no_kwargs []) = Some x
       \<and> exc_detail x = Some (PStr ''Service Unavailable'')"
  using detail_of_unparseable_body [of "serving \<lparr>status_code = 503, resp_text = ''Service Unavailable'',
                                   json = Inl ''Expecting value: line 1 column 1 (char 0)''\<rparr>"
            a_client "''GET''" "''/api/status''" no_kwargs
            "\<lparr>status_code = 503, resp_text = ''Service Unavailable'',
                                   json = Inl ''Expecting value: line 1 column 1 (char 0)''\<rparr>"
            "''Expecting value: line 1 column 1 (char 0)''" "[]"]
  by (simp add: serving_def)

text \<open>
  Claim C10: for a response with status outside [200, 300) whose body parses to a JSON
  object with no \<open>detail\<close> key, the dispatch raises an error whose detail is the response
  text, the fallback of an unparseable body.
\<close>

theorem detail_of_object_without_detail:
  assumes "transport env (mk_call c m e kw) = Responded r"
    and "\<not> (200 \<le> status_code r \<and> status_code r < 300)"
    and "json r = Inr (PDict d)"
    and "''detail'' \<notin> fst ` set d"
  shows "\<exists>x. raised (request env c m e kw log) = Some x \<and> exc_detail x = Some (PStr (resp_text r))"
proof -
  have "map_of d ''detail'' = None"
    using assms(4) by (simp add: map_of_eq_None_iff)
  with assms(1-3) show ?thesis
    by (auto simp: raised_def request_defs split: request_splits)
qed

theorem detail_of_object_without_detail_witness:
  "\<exists>x. raised (request (serving \<lparr>status_code = 400, resp_text = ''{}'', json = Inr (PDict [])\<rparr>)
                a_client ''POST'' ''/api/reports/custom'' (with_json (PDict [])) []) = Some x
       \<and> exc_detail x = Some (PStr ''{}'')"
  using detail_of_object_without_detail [of "serving \<lparr>status_code = 400, resp_text = ''{}'', json = Inr (PDict [])\<rparr>"
            a_client "''POST''" "''/api/reports/custom''" "with_json (PDict [])"
            "\<lparr>status_code = 400, resp_text = ''{}'', json = Inr (PDict [])\<rparr>" "[]" "[]"]
  by (simp add: serving_def)

section \<open>Construction\<close>

text \<open>
  Claim C8: constructing a client with an empty credential raises \<open>AuthenticationError\<close>
  and leaves the log as it was (no network call); with a non-empty credential the
  construction returns the client (base address without trailing slashes, the three
  headers) and leaves the log as it was.
\<close>

theorem init_credential:
  "(api_key = [] \<longrightarrow>
      init api_key base log = (Inl (AuthenticationError (PStr ''API key is required.'')), log))
   \<and> (api_key \<noteq> [] \<longrightarrow>
      init api_key base log
        = (Inr \<lparr>base_url = rstrip_slash base,
                  session_headers = [(''X-API-Key'', api_key),
                                     (''Content-Type'', ''application/json''),
                                     (''Accept'', ''application/json'')]\<rparr>, log))"
  by (simp add: init_def)

theorem init_credential_witness:
  "init [] default_base_url [] = (Inl (AuthenticationError (PStr ''API key is required.'')), [])
   \<and> init ''k'' default_base_url [] = (Inr a_client, [])"
  using init_credential [of "[]" default_base_url "[]"] init_credential [of "''k''" default_base_url "[]"]
  by (simp add: default_base_url_def rstrip_slash_def a_client_def)

section \<open>Assembling the query and the body\<close>

text \<open>
  Claim C4, at \<open>mark_notifications_read\<close>: called with \<open>ids\<close> unset, the operation
  transmits the entry \<open>ids\<close> with an empty list; the entry of the unset argument is
  not omitted.
\<close>

theorem mark_notifications_read_keeps_unset:
  "transmitted (snd (mark_notifications_read
       (serving \<lparr>status_code = 200, resp_text = ''{}'', json = Inr (PDict [])\<rparr>)
       a_client PNone [])) = [[(''ids'', PList [])]]
   \<and> \<not> omits_unset [(''ids'', PNone)] [(''ids'', PList [])]"
  by (simp add: mark_notifications_read_sent omits_unset_def)

text \<open>
  Claim C4, amended: every public operation that has an argument whose default is
  \<open>None\<close>, except \<open>mark_notifications_read\<close>, transmits one mapping that follows the
  omit-if-unset rule for its named arguments: no entry for an argument that is \<open>None\<close>,
  no \<open>None\<close> among the values, every other argument sent
  (\<open>perform_recommendation_action\<close>: whenever it transmits at all);
  \<open>mark_notifications_read\<close> with \<open>ids\<close> unset transmits \<open>ids\<close> as the empty list, not
  as \<open>None\<close>; and \<open>get_trends\<close> with \<open>search\<close> unset transmits no \<open>search\<close> key.
\<close>

theorem operations_omit_unset:
  "(\<exists>sent. transmitted (snd (get_trends env c search sort_by order limit offset period category log))
        = transmitted log @ [sent]
      \<and> omits_unset [(''search'', search), (''sort_by'', sort_by), (''order'', order),
           (''limit'', limit), (''offset'', offset), (''period'', period),
           (''category'', category)] sent
      \<and> (search = PNone \<longrightarrow> ''search'' \<notin> fst ` set sent))
   \<and> (\<exists>sent. transmitted (snd (get_trend_analytics env c trend_id period start_date end_date log))
        = transmitted log @ [sent]
      \<and> omits_unset [(''period'', period), (''start_date'', start_date),
           (''end_date'', end_date)] sent)
   \<and> (\<exists>sent. transmitted (snd (search_insights env c key_theme_contains audience_keyword
          angle_contains sentiment_category overall_topic_category_llm trend_name_contains
          limit offset sort_by order log))
        = transmitted log @ [sent]
      \<and> omits_unset [(''keyThemeContains'', key_theme_contains),
           (''audienceKeyword'', audience_keyword), (''angleContains'', angle_contains),
           (''sentimentCategory'', sentiment_category),
           (''overallTopicCategoryLlm'', overall_topic_category_llm),
           (''trendNameContains'', trend_name_contains),
           (''limit'', limit), (''offset'', offset), (''sort_by'', sort_by),
           (''order'', order)] sent)
   \<and> (\<exists>sent. transmitted (snd (get_recommendations env c limit offset recommendation_type
          source_trend_query priority status log))
        = transmitted log @ [sent]
      \<and> omits_unset [(''limit'', limit), (''offset'', offset), (''type'', recommendation_type),
           (''sourceTrendQ'', source_trend_query), (''priority'', priority),
           (''status'', status)] sent)
   \<and> (\<exists>new. transmitted (snd (perform_recommendation_action env c recommendation_id action
          feedback log))
        = transmitted log @ new
      \<and> list_all (omits_unset [(''action'', action), (''feedback'', feedback)]) new)
   \<and> (\<exists>sent. transmitted (snd (get_tracked_x_users env c q min_followers sort_by log))
        = transmitted log @ [sent]
      \<and> omits_unset [(''q'', q), (''min_followers'', min_followers), (''sort_by'', sort_by)] sent)
   \<and> (\<exists>sent. transmitted (snd (create_tracked_x_user env c handle name description notes log))
        = transmitted log @ [sent]
      \<and> omits_unset [(''handle'', handle), (''name'', name), (''description'', description),
           (''notes'', notes)] sent)
   \<and> (\<exists>sent. transmitted (snd (get_crisis_events env c limit offset status keyword severity
          time_range start_date end_date log))
        = transmitted log @ [sent]
      \<and> omits_unset [(''limit'', limit), (''offset'', offset), (''status'', status),
           (''keyword'', keyword), (''severity'', severity), (''timeRange'', time_range),
           (''startDate'', start_date), (''endDate'', end_date)] sent)
   \<and> (\<exists>sent. transmitted (snd (create_topic_interest env c keyword alert_condition_type
          volume_threshold_value percentage_growth_value log))
        = transmitted log @ [sent]
      \<and> omits_unset [(''keyword'', keyword), (''alert_condition_type'', alert_condition_type),
           (''volume_threshold_value'', volume_threshold_value),
           (''percentage_growth_value'', percentage_growth_value)] sent)
   \<and> (\<exists>sent. transmitted (snd (save_export_settings env c destination config schedule
          schedule_time is_active config_id log))
        = transmitted log @ [sent]
      \<and> omits_unset [(''id'', config_id), (''destination'', destination), (''config'', config),
           (''schedule'', schedule), (''schedule_time'', schedule_time),
           (''is_active'', is_active)] sent)
   \<and> transmitted (snd (mark_notifications_read env c PNone log))
        = transmitted log @ [[(''ids'', PList [])]]"
proof -
  have trends: "\<exists>sent. transmitted (snd (get_trends env c search sort_by order limit offset period category log))
        = transmitted log @ [sent]
      \<and> omits_unset [(''search'', search), (''sort_by'', sort_by), (''order'', order),
           (''limit'', limit), (''offset'', offset), (''period'', period),
           (''category'', category)] sent
      \<and> (search = PNone \<longrightarrow> ''search'' \<notin> fst ` set sent)"
  proof -
    let ?args = "[(''search'', search), (''sort_by'', sort_by), (''order'', order),
           (''limit'', limit), (''offset'', offset), (''period'', period),
           (''category'', category)]"
    have ou: "omits_unset ?args (omit_none ?args)"
      by (rule omits_unset_omit_none) simp
    have "search = PNone \<longrightarrow> ''search'' \<notin> fst ` set (omit_none ?args)"
      using omits_unset_absent [OF ou, of "''search''"] by simp
    with ou show ?thesis
      using get_trends_sent [of env c search sort_by order limit offset period category log]
      by blast
  qed
  have analytics: "\<exists>sent. transmitted (snd (get_trend_analytics env c trend_id period start_date end_date log))
        = transmitted log @ [sent]
      \<and> omits_unset [(''period'', period), (''start_date'', start_date),
           (''end_date'', end_date)] sent"
    unfolding get_trend_analytics_sent
    by (rule sent_follows_rule) simp
  have insights: "\<exists>sent. transmitted (snd (search_insights env c key_theme_contains audience_keyword
          angle_contains sentiment_category overall_topic_category_llm trend_name_contains
          limit offset sort_by order log))
        = transmitted log @ [sent]
      \<and> omits_unset [(''keyThemeContains'', key_theme_contains),
           (''audienceKeyword'', audience_keyword), (''angleContains'', angle_contains),
           (''sentimentCategory'', sentiment_category),
           (''overallTopicCategoryLlm'', overall_topic_category_llm),
           (''trendNameContains'', trend_name_contains),
           (''limit'', limit), (''offset'', offset), (''sort_by'', sort_by),
           (''order'', order)] sent"
    unfolding search_insights_sent
    by (rule sent_follows_rule) simp
  have recs: "\<exists>sent. transmitted (snd (get_recommendations env c limit offset recommendation_type
          source_trend_query priority status log))
        = transmitted log @ [sent]
      \<and> omits_unset [(''limit'', limit), (''offset'', offset), (''type'', recommendation_type),
           (''sourceTrendQ'', source_trend_query), (''priority'', priority),
           (''status'', status)] sent"
    unfolding get_recommendations_sent
    by (rule sent_follows_rule) simp
  have action: "\<exists>new. transmitted (snd (perform_recommendation_action env c recommendation_id action
          feedback log))
        = transmitted log @ new
      \<and> list_all (omits_unset [(''action'', action), (''feedback'', feedback)]) new"
    unfolding perform_recommendation_action_sent
    by (simp add: omits_unset_omit_none)
  have users: "\<exists>sent. transmitted (snd (get_tracked_x_users env c q min_followers sort_by log))
        = transmitted log @ [sent]
      \<and> omits_unset [(''q'', q), (''min_followers'', min_followers), (''sort_by'', sort_by)] sent"
    unfolding get_tracked_x_users_sent
    by (rule sent_follows_rule) simp
  have create_user: "\<exists>sent. transmitted (snd (create_tracked_x_user env c handle name description notes log))
        = transmitted log @ [sent]
      \<and> omits_unset [(''handle'', handle), (''name'', name), (''description'', description),
           (''notes'', notes)] sent"
    unfolding create_tracked_x_user_sent
    by (rule sent_follows_rule) simp
  have crisis: "\<exists>sent. transmitted (snd (get_crisis_events env c limit offset status keyword severity
          time_range start_date end_date log))
        = transmitted log @ [sent]
      \<and> omits_unset [(''limit'', limit), (''offset'', offset), (''status'', status),
           (''keyword'', keyword), (''severity'', severity), (''timeRange'', time_range),
           (''startDate'', start_date), (''endDate'', end_date)] sent"
    unfolding get_crisis_events_sent
    by (rule sent_follows_rule) simp
  have topic: "\<exists>sent. transmitted (snd (create_topic_interest env c keyword alert_condition_type
          volume_threshold_value percentage_growth_value log))
        = transmitted log @ [sent]
      \<and> omits_unset [(''keyword'', keyword), (''alert_condition_type'', alert_condition_type),
           (''volume_threshold_value'', volume_threshold_value),
           (''percentage_growth_value'', percentage_growth_value)] sent"
    unfolding create_topic_interest_sent
    by (rule sent_follows_rule) simp
  have export: "\<exists>sent. transmitted (snd (save_export_settings env c destination config schedule
          schedule_time is_active config_id log))
        = transmitted log @ [sent]
      \<and> omits_unset [(''id'', config_id), (''destination'', destination), (''config'', config),
           (''schedule'', schedule), (''schedule_time'', schedule_time),
           (''is_active'', is_active)] sent"
    unfolding save_export_settings_sent
    by (rule sent_follows_rule) simp
  have notif: "transmitted (snd (mark_notifications_read env c PNone log))
        = transmitted log @ [[(''ids'', PList [])]]"
    by (simp add: mark_notifications_read_sent)
  from trends analytics insights recs action users create_user crisis topic export notif
  show ?thesis by (intro conjI)
qed

theorem operations_omit_unset_witness:
  "transmitted (snd (get_trends (serving ok_response) a_client
       PNone (PStr ''volume'') (PStr ''desc'') (PInt 20) (PInt 0) (PStr ''24h'') PNone []))
     = [[(''sort_by'', PStr ''volume''), (''order'', PStr ''desc''), (''limit'', PInt 20),
         (''offset'', PInt 0), (''period'', PStr ''24h'')]]
   \<and> omits_unset [(''search'', PNone), (''sort_by'', PStr ''volume''), (''order'', PStr ''desc''),
         (''limit'', PInt 20), (''offset'', PInt 0), (''period'', PStr ''24h''),
         (''category'', PNone)]
        [(''sort_by'', PStr ''volume''), (''order'', PStr ''desc''), (''limit'', PInt 20),
         (''offset'', PInt 0), (''period'', PStr ''24h'')]
   \<and> ''search'' \<notin> fst ` set [(''sort_by'', PStr ''volume''), (''order'', PStr ''desc''),
         (''limit'', PInt 20), (''offset'', PInt 0), (''period'', PStr ''24h'')]"
proof -
  have sent: "transmitted (snd (get_trends (serving ok_response) a_client
       PNone (PStr ''volume'') (PStr ''desc'') (PInt 20) (PInt 0) (PStr ''24h'') PNone []))
     = [[(''sort_by'', PStr ''volume''), (''order'', PStr ''desc''), (''limit'', PInt 20),
         (''offset'', PInt 0), (''period'', PStr ''24h'')]]"
    by (simp add: get_trends_sent omit_none_def)
  show ?thesis
    using operations_omit_unset [where env = "serving ok_response" and c = a_client
          and search = PNone and sort_by = "PStr ''volume''" and order = "PStr ''desc''"
          and limit = "PInt 20" and offset = "PInt 0" and period = "PStr ''24h''"
          and category = PNone and log = "[]", THEN conjunct1]
    unfolding sent by simp
qed

section \<open>Local validation\<close>

text \<open>
  Claim C7, at an empty \<open>action\<close>: with \<open>action\<close> set to the empty string and \<open>feedback\<close>
  unset, exactly one of the two is set, and the operation raises \<open>ValueError\<close> without
  a network call.
\<close>

theorem recommendation_action_empty_action:
  "PStr [] \<noteq> PNone
   \<and> perform_recommendation_action (serving ok_response) a_client 7 (PStr []) PNone []
     = (Inl (ValueError (''Either '' @ quoted ''action'' @ '' or '' @ quoted ''feedback''
                           @ '' must be provided.'')), [])"
  by (simp add: perform_recommendation_action_def)

text \<open>
  Claim C7, amended: \<open>perform_recommendation_action\<close> raises \<open>ValueError\<close> and leaves the
  log as it was (no network call) when \<open>action\<close> and \<open>feedback\<close> are both truthy (neither
  \<open>None\<close> nor empty), and likewise when neither is truthy; when exactly one of the two
  is truthy it makes the one network call of the dispatch, a POST of the body assembled
  from the two arguments.
\<close>

theorem recommendation_action_precondition:
  "(truthy action \<and> truthy feedback \<longrightarrow>
      perform_recommendation_action env c recommendation_id action feedback log
        = (Inl (ValueError (''Only one of '' @ quoted ''action'' @ '' or '' @ quoted ''feedback''
                              @ '' can be provided at a time.'')), log))
   \<and> (\<not> truthy action \<and> \<not> truthy feedback \<longrightarrow>
      perform_recommendation_action env c recommendation_id action feedback log
        = (Inl (ValueError (''Either '' @ quoted ''action'' @ '' or '' @ quoted ''feedback''
                              @ '' must be provided.'')), log))
   \<and> (truthy action \<noteq> truthy feedback \<longrightarrow>
      calls_of (snd (perform_recommendation_action env c recommendation_id action feedback log))
        = calls_of log @
          [mk_call c ''POST''
             (''/api/intelligence/recommendations/'' @ str_int recommendation_id @ ''/action'')
             (with_json (PDict (omit_none [(''action'', action), (''feedback'', feedback)])))])"
  by (auto simp: perform_recommendation_action_def request_calls)

theorem recommendation_action_precondition_witness:
  "perform_recommendation_action (serving ok_response) a_client 7
       (PStr ''dismiss'') (PStr ''not relevant'') []
     = (Inl (ValueError (''Only one of '' @ quoted ''action'' @ '' or '' @ quoted ''feedback''
                           @ '' can be provided at a time.'')), [])
   \<and> perform_recommendation_action (serving ok_response) a_client 7 PNone PNone []
     = (Inl (ValueError (''Either '' @ quoted ''action'' @ '' or '' @ quoted ''feedback''
                           @ '' must be provided.'')), [])
   \<and> calls_of (snd (perform_recommendation_action (serving ok_response) a_client 7
                      (PStr ''dismiss'') PNone []))
     = [mk_call a_client ''POST'' ''/api/intelligence/recommendations/7/action''
          (with_json (PDict [(''action'', PStr ''dismiss'')]))]"
  using recommendation_action_precondition [of "PStr ''dismiss''" "PStr ''not relevant''"
            "serving ok_response" a_client 7 "[]"]
        recommendation_action_precondition [of PNone PNone "serving ok_response" a_client 7 "[]"]
        recommendation_action_precondition [of "PStr ''dismiss''" PNone
            "serving ok_response" a_client 7 "[]"]
  by (simp add: omit_none_def str_int_def str_nat.simps)

section \<open>Boolean fields\<close>

text \<open>
  Claim C9, at \<open>perform_deep_analysis\<close>: its boolean field \<open>force_refresh\<close>, when absent,
  is transmitted all the same; the body does not follow the omit-if-unset rule.
\<close>

theorem deep_analysis_force_refresh_not_omitted:
  "transmitted (snd (perform_deep_analysis (serving ok_response) a_client
       (PStr ''ai chips'') PNone []))
     = [[(''query'', PStr ''ai chips''), (''force_refresh'', PNone)]]
   \<and> \<not> omits_unset [(''query'', PStr ''ai chips''), (''force_refresh'', PNone)]
          [(''query'', PStr ''ai chips''), (''force_refresh'', PNone)]"
  by (simp add: perform_deep_analysis_def transmitted_request omits_unset_def)

text \<open>
  Claim C9, amended: \<open>get_ai_insights\<close> always transmits \<open>force_refresh\<close> in the query
  parameters, with the value it was given (\<open>False\<close> by default), and so does
  \<open>perform_deep_analysis\<close> in its body; neither filters it. The boolean field
  \<open>is_active\<close> of \<open>save_export_settings\<close> follows the omit-if-unset rule: it is
  transmitted with its value (also \<open>False\<close>) unless it is \<open>None\<close>, and then it has no
  entry.
\<close>

theorem boolean_fields_transmitted:
  "calls_of (snd (get_ai_insights env c trend_id force_refresh log))
     = calls_of log @
       [mk_call c ''GET'' (''/api/trends/'' @ str_int trend_id @ ''/ai-insights'')
          (with_params [(''force_refresh'', force_refresh)])]
   \<and> calls_of (snd (perform_deep_analysis env c query force_refresh log))
     = calls_of log @
       [mk_call c ''POST'' ''/api/intelligence/deep-analysis''
          (with_json (PDict [(''query'', query), (''force_refresh'', force_refresh)]))]
   \<and> (\<exists>sent. transmitted (snd (save_export_settings env c destination config schedule
          schedule_time is_active config_id log))
        = transmitted log @ [sent]
      \<and> (is_active = PNone \<longrightarrow> ''is_active'' \<notin> fst ` set sent)
      \<and> (is_active \<noteq> PNone \<longrightarrow> (''is_active'', is_active) \<in> set sent))"
proof -
  have "snd (get_ai_insights env c trend_id force_refresh log)
          = snd (request env c ''GET'' (''/api/trends/'' @ str_int trend_id @ ''/ai-insights'')
                   (with_params [(''force_refresh'', force_refresh)]) log)"
    by (simp add: get_ai_insights_def split: prod.splits sum.splits)
  then have insights: "calls_of (snd (get_ai_insights env c trend_id force_refresh log))
     = calls_of log @
       [mk_call c ''GET'' (''/api/trends/'' @ str_int trend_id @ ''/ai-insights'')
          (with_params [(''force_refresh'', force_refresh)])]"
    by (simp add: request_calls)
  have deep: "calls_of (snd (perform_deep_analysis env c query force_refresh log))
     = calls_of log @
       [mk_call c ''POST'' ''/api/intelligence/deep-analysis''
          (with_json (PDict [(''query'', query), (''force_refresh'', force_refresh)]))]"
    by (simp add: perform_deep_analysis_def request_calls)
  let ?args = "[(''id'', config_id), (''destination'', destination), (''config'', config),
           (''schedule'', schedule), (''schedule_time'', schedule_time),
           (''is_active'', is_active)]"
  have ou: "omits_unset ?args (omit_none ?args)"
    by (rule omits_unset_omit_none) simp
  have absent: "is_active = PNone \<longrightarrow> ''is_active'' \<notin> fst ` set (omit_none ?args)"
    using omits_unset_absent [OF ou, of "''is_active''"] by simp
  have present: "is_active \<noteq> PNone \<longrightarrow> (''is_active'', is_active) \<in> set (omit_none ?args)"
    by (simp add: omit_none_def)
  have export: "\<exists>sent. transmitted (snd (save_export_settings env c destination config schedule
          schedule_time is_active config_id log))
        = transmitted log @ [sent]
      \<and> (is_active = PNone \<longrightarrow> ''is_active'' \<notin> fst ` set sent)
      \<and> (is_active \<noteq> PNone \<longrightarrow> (''is_active'', is_active) \<in> set sent)"
    using absent present
      save_export_settings_sent [of env c destination config schedule schedule_time is_active
        config_id log]
    by blast
  from insights deep export show ?thesis by (intro conjI)
qed

theorem boolean_fields_transmitted_witness:
  "calls_of (snd (get_ai_insights (serving ok_response) a_client 7 (PBool False) []))
     = [mk_call a_client ''GET'' ''/api/trends/7/ai-insights''
          (with_params [(''force_refresh'', PBool False)])]
   \<and> calls_of (snd (perform_deep_analysis (serving ok_response) a_client
                      (PStr ''ai chips'') (PBool False) []))
     = [mk_call a_client ''POST'' ''/api/intelligence/deep-analysis''
          (with_json (PDict [(''query'', PStr ''ai chips''), (''force_refresh'', PBool False)]))]
   \<and> transmitted (snd (save_export_settings (serving ok_response) a_client
                      (PStr ''s3'') (PDict []) (PStr ''none'') PNone (PBool False) PNone []))
     = [[(''destination'', PStr ''s3''), (''config'', PDict []), (''schedule'', PStr ''none''),
         (''is_active'', PBool False)]]
   \<and> (''is_active'', PBool False)
       \<in> set [(''destination'', PStr ''s3''), (''config'', PDict []), (''schedule'', PStr ''none''),
         (''is_active'', PBool False)]"
proof -
  have sent: "transmitted (snd (save_export_settings (serving ok_response) a_client
                      (PStr ''s3'') (PDict []) (PStr ''none'') PNone (PBool False) PNone []))
     = [[(''destination'', PStr ''s3''), (''config'', PDict []), (''schedule'', PStr ''none''),
         (''is_active'', PBool False)]]"
    by (simp add: save_export_settings_sent omit_none_def)
  show ?thesis
    using boolean_fields_transmitted [where env = "serving ok_response" and c = a_client
          and trend_id = 7 and force_refresh = "PBool False" and query = "PStr ''ai chips''"
          and destination = "PStr ''s3''" and config = "PDict []" and schedule = "PStr ''none''"
          and schedule_time = PNone and is_active = "PBool False" and config_id = PNone
          and log = "[]"]
    unfolding sent by (simp add: str_int_def str_nat.simps)
qed

end
